theory Spec2Isabelle
  imports Main
begin

section \<open>Python values, exceptions and classes\<close>

text \<open>
  The module \<^verbatim>\<open>scikits/odes/dae.py\<close> holds the abstract integrator class
  \<^verbatim>\<open>DaeBase\<close>, the user-facing class \<^verbatim>\<open>dae\<close> and the function
  \<^verbatim>\<open>find_dae_integrator\<close>. Exceptions are values of the type \<open>exn\<close>; a computation
  that may raise returns \<open>exn + 'a\<close>, with \<open>Inl\<close> for the exception. A constructor of
  \<open>exn\<close> stands for the Python class of that name and its subclasses, the argument is the
  exception's message; \<open>AttributeError\<close> carries the name of the missing attribute.
  \<open>SequenceError\<close> is the usage error that the specification names for
  \<^verbatim>\<open>step\<close> before \<^verbatim>\<open>init_step\<close>; no statement of \<^verbatim>\<open>dae.py\<close> raises it.
  \<open>Unmodelled\<close> is no Python exception: it is the answer of the model where it does not
  cover a construct (the regular-expression syntax beyond literal characters).
  A string is a list of characters with codes below 256, one \<open>char\<close> for each.
\<close>

datatype exn =
    ValueError string
  | ImportError string
  | AttributeError string
  | TypeError string
  | NotImplementedError string
  | SequenceError string
  | OtherException string
  | Unmodelled string

text \<open>A Python value handed to a method: \<open>PyNone\<close> is \<^verbatim>\<open>None\<close>, the default of
  every optional parameter of the module.\<close>

datatype 'a pyval = PyNone | PyVal 'a

text \<open>Keyword arguments \<^verbatim>\<open>**options\<close>.\<close>

type_synonym 'a kwargs = "(string \<times> 'a pyval) list"

text \<open>The value of a class attribute, as far as \<^verbatim>\<open>re.match\<close> tells values apart: a
  string, or any other object.\<close>

datatype pyattr = StrAttr string | ObjAttr

text \<open>
  An integrator class. \<open>cls_name\<close> is \<^verbatim>\<open>cl.__name__\<close>; \<open>cls_attrs\<close> lists every other
  attribute that attribute lookup finds on the class (its own and the inherited ones);
  \<open>cls_init\<close> is the constructor \<^verbatim>\<open>cl(Rfn, **options)\<close>, which returns the state of the
  new instance or raises; the four methods take the instance state and return the result
  (or the exception) with the new instance state.
\<close>

record ('a, 's) integrator_class =
  cls_name :: string
  cls_attrs :: "(string \<times> pyattr) list"
  cls_init :: "'a pyval \<Rightarrow> 'a kwargs \<Rightarrow> exn + 's"
  cls_set_options :: "'a kwargs \<Rightarrow> 's \<Rightarrow> (exn + 'a pyval) \<times> 's"
  cls_solve :: "'a pyval \<Rightarrow> 'a pyval \<Rightarrow> 'a pyval \<Rightarrow> 's \<Rightarrow> (exn + 'a pyval) \<times> 's"
  cls_init_step ::
    "'a pyval \<Rightarrow> 'a pyval \<Rightarrow> 'a pyval \<Rightarrow> 'a pyval \<Rightarrow> 'a pyval \<Rightarrow> 's \<Rightarrow> (exn + 'a pyval) \<times> 's"
  cls_step :: "'a pyval \<Rightarrow> 'a pyval \<Rightarrow> 'a pyval \<Rightarrow> 's \<Rightarrow> (exn + 'a pyval) \<times> 's"

definition getattr_cls :: "('a, 's) integrator_class \<Rightarrow> string \<Rightarrow> pyattr option" where
  "getattr_cls cl n =
     (if n = ''__name__'' then Some (StrAttr (cls_name cl)) else map_of (cls_attrs cl) n)"

definition hasattr :: "('a, 's) integrator_class \<Rightarrow> string \<Rightarrow> bool" where
  "hasattr cl n = (case getattr_cls cl n of None \<Rightarrow> False | Some v \<Rightarrow> True)"

section \<open>The abstract class DaeBase\<close>

text \<open>
  \<^verbatim>\<open>
  class DaeBase(object):
      integrator_classes = []
      def __init__(self, Rfn, **options):
          raise NotImplementedError('all DAE solvers must implement this')
      def set_options(self, **options):
          raise NotImplementedError('all DAE solvers must implement this')
      def solve(self, tspan, y0,  yp0):
          raise NotImplementedError('all DAE solvers must implement this')
      def init_step(self, t0, y0, yp0, y_ic0_retn = None, yp_ic0_retn = None):
          raise NotImplementedError('all DAE solvers must implement this')
      def step(self, t, y_retn=None, yp_retn=None):
          raise NotImplementedError('all DAE solvers must implement this')
  \<close>
\<close>

definition DaeBase_init :: "'a pyval \<Rightarrow> 'a kwargs \<Rightarrow> exn + 's" where
  "DaeBase_init Rfn options = Inl (NotImplementedError ''all DAE solvers must implement this'')"

definition DaeBase_set_options :: "'a kwargs \<Rightarrow> 's \<Rightarrow> (exn + 'a pyval) \<times> 's" where
  "DaeBase_set_options options self =
     (Inl (NotImplementedError ''all DAE solvers must implement this''), self)"

definition DaeBase_solve ::
  "'a pyval \<Rightarrow> 'a pyval \<Rightarrow> 'a pyval \<Rightarrow> 's \<Rightarrow> (exn + 'a pyval) \<times> 's" where
  "DaeBase_solve tspan y0 yp0 self =
     (Inl (NotImplementedError ''all DAE solvers must implement this''), self)"

definition DaeBase_init_step ::
  "'a pyval \<Rightarrow> 'a pyval \<Rightarrow> 'a pyval \<Rightarrow> 'a pyval \<Rightarrow> 'a pyval \<Rightarrow> 's \<Rightarrow> (exn + 'a pyval) \<times> 's" where
  "DaeBase_init_step t0 y0 yp0 y_ic0_retn yp_ic0_retn self =
     (Inl (NotImplementedError ''all DAE solvers must implement this''), self)"

definition DaeBase_step ::
  "'a pyval \<Rightarrow> 'a pyval \<Rightarrow> 'a pyval \<Rightarrow> 's \<Rightarrow> (exn + 'a pyval) \<times> 's" where
  "DaeBase_step t y_retn yp_retn self =
     (Inl (NotImplementedError ''all DAE solvers must implement this''), self)"

text \<open>
  The attribute tables. \<open>type_attrs\<close> are the attributes that Python 3 finds on every
  class made by a class statement, apart from \<^verbatim>\<open>__name__\<close> and from the three below:
  those of \<^verbatim>\<open>object\<close>, those of the class's own dictionary and those of the
  metaclass \<^verbatim>\<open>type\<close>; none of their values is a string. Every class also has
  \<^verbatim>\<open>__module__\<close> and \<^verbatim>\<open>__qualname__\<close>, which are strings, and \<^verbatim>\<open>__doc__\<close>,
  which is its docstring or \<^verbatim>\<open>None\<close>. \<open>DaeBase_body\<close> is what the body of
  \<^verbatim>\<open>DaeBase\<close> defines, and what a subclass inherits.
\<close>

definition type_attrs :: "(string \<times> pyattr) list" where
  "type_attrs = map (\<lambda>n. (n, ObjAttr))
     [''__class__'', ''__delattr__'', ''__dict__'', ''__dir__'', ''__eq__'', ''__format__'',
      ''__ge__'', ''__getattribute__'', ''__gt__'', ''__hash__'', ''__init__'',
      ''__init_subclass__'', ''__le__'', ''__lt__'', ''__ne__'', ''__new__'', ''__reduce__'',
      ''__reduce_ex__'', ''__repr__'', ''__setattr__'', ''__sizeof__'', ''__str__'',
      ''__subclasshook__'', ''__weakref__'', ''__base__'', ''__bases__'', ''__basicsize__'',
      ''__call__'', ''__dictoffset__'', ''__flags__'', ''__instancecheck__'', ''__itemsize__'',
      ''__mro__'', ''__prepare__'', ''__subclasscheck__'', ''__subclasses__'',
      ''__text_signature__'', ''__weakrefoffset__'', ''mro'']"

definition DaeBase_doc :: string where
  "DaeBase_doc =
     CHR 0x0A # ''    The interface which DAE solvers must implement.'' @
     CHR 0x0A # CHR 0x0A # ''    Parameters'' @
     CHR 0x0A # ''    ----------'' @
     CHR 0x0A # ''    Rfn :'' @
     CHR 0x0A # ''        residual function'' @
     CHR 0x0A # ''    options : mapping'' @
     CHR 0x0A # ''        Additional options for initialization, solver dependent'' @
     CHR 0x0A # ''    ''"

definition DaeBase_body :: "(string \<times> pyattr) list" where
  "DaeBase_body =
     [(''integrator_classes'', ObjAttr), (''__init__'', ObjAttr),
      (''set_options'', ObjAttr), (''solve'', ObjAttr),
      (''init_step'', ObjAttr), (''step'', ObjAttr)]"

definition DaeBase_attrs :: "(string \<times> pyattr) list" where
  "DaeBase_attrs =
     DaeBase_body @
     [(''__module__'', StrAttr ''scikits.odes.dae''), (''__qualname__'', StrAttr ''DaeBase''),
      (''__doc__'', StrAttr DaeBase_doc)] @
     type_attrs"

text \<open>The attribute table of a subclass of \<^verbatim>\<open>DaeBase\<close> that has no docstring, from
  its module, its name and what its own body defines.\<close>

definition subclass_attrs ::
  "string \<Rightarrow> string \<Rightarrow> (string \<times> pyattr) list \<Rightarrow> (string \<times> pyattr) list" where
  "subclass_attrs modname nm body =
     body @
     [(''__module__'', StrAttr modname), (''__qualname__'', StrAttr nm), (''__doc__'', ObjAttr)] @
     DaeBase_body @ type_attrs"

text \<open>The class object itself.\<close>

definition DaeBase :: "('a, 's) integrator_class" where
  "DaeBase =
     \<lparr>cls_name = ''DaeBase'',
      cls_attrs = DaeBase_attrs,
      cls_init = DaeBase_init,
      cls_set_options = DaeBase_set_options,
      cls_solve = DaeBase_solve,
      cls_init_step = DaeBase_init_step,
      cls_step = DaeBase_step\<rparr>"

section \<open>Matching a name against a class\<close>

text \<open>
  \<^verbatim>\<open>re.match(pattern, s, re.I)\<close> is used for its truth value only. It is library code, so
  the functions below take the matcher as their first argument \<open>rx\<close>: \<open>rx pattern s\<close> is
  \<open>Inr True\<close> when a match object is returned, \<open>Inr False\<close> when \<^verbatim>\<open>None\<close> is, and
  \<open>Inl e\<close> when the call raises. \<open>re_match\<close> is that matcher on the patterns made of
  literal ASCII characters only, where a match at the start of \<open>s\<close> that ignores case is
  what \<^verbatim>\<open>re.match\<close> looks for; on any other pattern it answers \<open>Unmodelled\<close>.
\<close>

type_synonym matcher = "string \<Rightarrow> string \<Rightarrow> exn + bool"

definition lower_char :: "char \<Rightarrow> char" where
  "lower_char c =
     (case map_of (zip ''ABCDEFGHIJKLMNOPQRSTUVWXYZ'' ''abcdefghijklmnopqrstuvwxyz'') c of
        None \<Rightarrow> c
      | Some d \<Rightarrow> d)"

definition lower :: "string \<Rightarrow> string" where
  "lower s = map lower_char s"

fun startswith_I :: "string \<Rightarrow> string \<Rightarrow> bool" where
  "startswith_I [] s = True"
| "startswith_I (p # ps) [] = False"
| "startswith_I (p # ps) (c # cs) = (lower_char p = lower_char c \<and> startswith_I ps cs)"

definition metachar :: "char \<Rightarrow> bool" where
  "metachar c = (c \<in> set (CHR 0x5C # ''.^$*+?{}[]|()''))"

definition literal_pattern :: "string \<Rightarrow> bool" where
  "literal_pattern p = list_all (\<lambda>c. \<not> metachar c \<and> \<not> digit7 c) p"

definition re_match :: matcher where
  "re_match pattern s =
     (if literal_pattern pattern then Inr (startswith_I pattern s)
      else Inl (Unmodelled pattern))"

text \<open>
  The test of the loop body of \<^verbatim>\<open>find_dae_integrator\<close> for one class:
  \<^verbatim>\<open>
      if re.match(name, cl.__name__, re.I):
          return cl
      elif hasattr(cl, name) and re.match(name, cl.name, re.I):
          return cl
  \<close>
  The attribute asked of \<^verbatim>\<open>hasattr\<close> is the one called by the requested name, the
  attribute read afterwards is the one called \<^verbatim>\<open>name\<close>. Reading it from a class that
  has none raises \<^verbatim>\<open>AttributeError\<close>, and \<^verbatim>\<open>re.match\<close> on a value that is no
  string raises \<^verbatim>\<open>TypeError\<close>.
\<close>

definition match_class :: "matcher \<Rightarrow> string \<Rightarrow> ('a, 's) integrator_class \<Rightarrow> exn + bool" where
  "match_class rx name cl =
     (case rx name (cls_name cl) of
        Inl e \<Rightarrow> Inl e
      | Inr True \<Rightarrow> Inr True
      | Inr False \<Rightarrow>
          (if hasattr cl name then
             (case getattr_cls cl ''name'' of
                None \<Rightarrow> Inl (AttributeError ''name'')
              | Some ObjAttr \<Rightarrow> Inl (TypeError ''expected string or bytes-like object'')
              | Some (StrAttr alias) \<Rightarrow> rx name alias)
           else Inr False))"

text \<open>
  The loop and the statement after it. The result is a Python value, a class or
  \<^verbatim>\<open>None\<close>, which the caller tests:
  \<^verbatim>\<open>
      for cl in DaeBase.integrator_classes:
          ...
      raise ValueError('Integrator name %s does not exsist' % name)
  \<close>
\<close>

fun resolve_loop ::
  "matcher \<Rightarrow> string \<Rightarrow> ('a, 's) integrator_class list \<Rightarrow> exn + ('a, 's) integrator_class option"
where
  "resolve_loop rx name [] =
     Inl (ValueError (''Integrator name '' @ name @ '' does not exsist''))"
| "resolve_loop rx name (cl # cls) =
     (case match_class rx name cl of
        Inl e \<Rightarrow> Inl e
      | Inr True \<Rightarrow> Inr (Some cl)
      | Inr False \<Rightarrow> resolve_loop rx name cls)"

section \<open>Module state and backend discovery\<close>

text \<open>
  The state of the process that the module reads and writes: the class attribute
  \<^verbatim>\<open>dae.LOADED\<close> (initially \<^verbatim>\<open>False\<close>), the list
  \<^verbatim>\<open>DaeBase.integrator_classes\<close> (initially empty), the lines printed so far and
  the import statements executed so far, in order.
\<close>

record ('a, 's) pystate =
  LOADED :: bool
  integrator_classes :: "('a, 's) integrator_class list"
  stdout :: "string list"
  import_log :: "string list"

definition initial_state :: "('a, 's) pystate" where
  "initial_state = \<lparr>LOADED = False, integrator_classes = [], stdout = [], import_log = []\<rparr>"

text \<open>
  What the three import statements of the discovery do is decided by modules that are not
  part of \<^verbatim>\<open>dae.py\<close>, so it is a parameter. \<open>import_ida\<close> is \<open>Inr c\<close> when
  \<^verbatim>\<open>from .sundials import ida\<close> succeeds and \<^verbatim>\<open>ida.IDA\<close> is the class \<open>c\<close>.
  \<open>import_ddaspk\<close> and \<open>import_lsodi\<close> are \<open>Inr cs\<close> when the import succeeds and the
  module, while it is imported, appends the classes \<open>cs\<close> to
  \<^verbatim>\<open>DaeBase.integrator_classes\<close> (\<^verbatim>\<open>find_dae_integrator\<close> appends nothing for
  these two). \<open>Inl e\<close> is an import that raises \<open>e\<close>. The environment is that of
  one call: Python does not run a module again that is loaded already, so a later import
  of such a module is \<open>Inr []\<close>.
\<close>

record ('a, 's) pyenv =
  import_ida :: "exn + ('a, 's) integrator_class"
  import_ddaspk :: "exn + ('a, 's) integrator_class list"
  import_lsodi :: "exn + ('a, 's) integrator_class list"

text \<open>
  \<^verbatim>\<open>
        try:
            from .sundials import ida
            DaeBase.integrator_classes.append(ida.IDA)
        except ValueError as msg:
            print('Could not load IDA solver', msg)
        except ImportError:
            print(sys.exc_info()[1])
  \<close>
  The result is the exception that leaves the statement, if any, and the new state.
\<close>

definition probe_ida ::
  "exn + ('a, 's) integrator_class \<Rightarrow> ('a, 's) pystate \<Rightarrow> exn option \<times> ('a, 's) pystate" where
  "probe_ida outcome st =
     (let st1 = st\<lparr>import_log := import_log st @ [''.sundials.ida'']\<rparr> in
      case outcome of
        Inr c \<Rightarrow> (None, st1\<lparr>integrator_classes := integrator_classes st1 @ [c]\<rparr>)
      | Inl (ValueError msg) \<Rightarrow>
          (None, st1\<lparr>stdout := stdout st1 @ [''Could not load IDA solver '' @ msg]\<rparr>)
      | Inl (ImportError msg) \<Rightarrow> (None, st1\<lparr>stdout := stdout st1 @ [msg]\<rparr>)
      | Inl e \<Rightarrow> (Some e, st1))"

text \<open>
  \<^verbatim>\<open>
        try:
            from .ddaspkint import ddaspk
        except ImportError:
            print(sys.exc_info()[1])
  \<close>
  and the same statement for \<^verbatim>\<open>from .lsodiint import lsodi\<close>.
\<close>

definition probe_module ::
  "string \<Rightarrow> exn + ('a, 's) integrator_class list \<Rightarrow> ('a, 's) pystate
     \<Rightarrow> exn option \<times> ('a, 's) pystate" where
  "probe_module modname outcome st =
     (let st1 = st\<lparr>import_log := import_log st @ [modname]\<rparr> in
      case outcome of
        Inr cs \<Rightarrow> (None, st1\<lparr>integrator_classes := integrator_classes st1 @ cs\<rparr>)
      | Inl (ImportError msg) \<Rightarrow> (None, st1\<lparr>stdout := stdout st1 @ [msg]\<rparr>)
      | Inl e \<Rightarrow> (Some e, st1))"

text \<open>The body of \<^verbatim>\<open>if not dae.LOADED:\<close>, which ends with
  \<^verbatim>\<open>dae.LOADED = True\<close>. An exception that no handler catches leaves the function
  at once.\<close>

definition discover :: "('a, 's) pyenv \<Rightarrow> ('a, 's) pystate \<Rightarrow> exn option \<times> ('a, 's) pystate" where
  "discover env st =
     (case probe_ida (import_ida env) st of
        (Some e, st1) \<Rightarrow> (Some e, st1)
      | (None, st1) \<Rightarrow>
          (case probe_module ''.ddaspkint.ddaspk'' (import_ddaspk env) st1 of
             (Some e, st2) \<Rightarrow> (Some e, st2)
           | (None, st2) \<Rightarrow>
               (case probe_module ''.lsodiint.lsodi'' (import_lsodi env) st2 of
                  (Some e, st3) \<Rightarrow> (Some e, st3)
                | (None, st3) \<Rightarrow> (None, st3\<lparr>LOADED := True\<rparr>))))"

definition ensure_loaded ::
  "('a, 's) pyenv \<Rightarrow> ('a, 's) pystate \<Rightarrow> exn option \<times> ('a, 's) pystate" where
  "ensure_loaded env st = (if \<not> LOADED st then discover env st else (None, st))"

text \<open>
  \<^verbatim>\<open>
  def find_dae_integrator(name):
      if not dae.LOADED:
          ...
      for cl in DaeBase.integrator_classes:
          ...
      raise ValueError('Integrator name %s does not exsist' % name)
  \<close>
\<close>

definition find_dae_integrator ::
  "matcher \<Rightarrow> ('a, 's) pyenv \<Rightarrow> string \<Rightarrow> ('a, 's) pystate
     \<Rightarrow> (exn + ('a, 's) integrator_class option) \<times> ('a, 's) pystate" where
  "find_dae_integrator rx env name st =
     (case ensure_loaded env st of
        (Some e, st1) \<Rightarrow> (Inl e, st1)
      | (None, st1) \<Rightarrow> (resolve_loop rx name (integrator_classes st1), st1))"

section \<open>The class dae\<close>

text \<open>
  An object of class \<^verbatim>\<open>dae\<close> has one attribute, \<^verbatim>\<open>_integrator\<close>: \<open>None\<close> while
  the attribute does not exist, otherwise the backend instance, which is its class and its
  state.
\<close>

record ('a, 's) dae =
  dae_integrator :: "(('a, 's) integrator_class \<times> 's) option"

text \<open>\<^verbatim>\<open>repr\<close> of a string that holds no quote, no backslash and no control
  character.\<close>

definition repr_str :: "string \<Rightarrow> string" where
  "repr_str s = CHR 0x27 # s @ [CHR 0x27]"

text \<open>
  \<^verbatim>\<open>
    def __init__(self, integrator_name, eqsres, **options):
        integrator = find_dae_integrator(integrator_name)
        if integrator is None:
            raise ValueError('No integrator name match with %s or is not available.'\
                  %(repr(integrator_name)))
        else:
            self._integrator = integrator(eqsres, **options)
  \<close>
\<close>

definition dae_init ::
  "matcher \<Rightarrow> ('a, 's) pyenv \<Rightarrow> string \<Rightarrow> 'a pyval \<Rightarrow> 'a kwargs \<Rightarrow> ('a, 's) pystate
     \<Rightarrow> (exn + ('a, 's) dae) \<times> ('a, 's) pystate" where
  "dae_init rx env integrator_name eqsres options st =
     (case find_dae_integrator rx env integrator_name st of
        (Inl e, st1) \<Rightarrow> (Inl e, st1)
      | (Inr None, st1) \<Rightarrow>
          (Inl (ValueError (''No integrator name match with '' @ repr_str integrator_name
                            @ '' or is not available.'')), st1)
      | (Inr (Some integrator), st1) \<Rightarrow>
          (case cls_init integrator eqsres options of
             Inl e \<Rightarrow> (Inl e, st1)
           | Inr inst \<Rightarrow> (Inr \<lparr>dae_integrator = Some (integrator, inst)\<rparr>, st1)))"

text \<open>
  The four public methods, each a single statement
  \<^verbatim>\<open>return self._integrator.m(...)\<close>. Reading \<^verbatim>\<open>self._integrator\<close> raises
  \<^verbatim>\<open>AttributeError\<close> when the attribute does not exist. A parameter that the caller
  omits is bound to \<^verbatim>\<open>None\<close>, here \<open>PyNone\<close>, before the body runs.
\<close>

definition dae_set_options ::
  "('a, 's) dae \<Rightarrow> 'a kwargs \<Rightarrow> (exn + 'a pyval) \<times> ('a, 's) dae" where
  "dae_set_options self options =
     (case dae_integrator self of
        None \<Rightarrow> (Inl (AttributeError ''_integrator''), self)
      | Some (cl, inst) \<Rightarrow>
          (case cls_set_options cl options inst of
             (r, inst') \<Rightarrow> (r, self\<lparr>dae_integrator := Some (cl, inst')\<rparr>)))"

definition dae_solve ::
  "('a, 's) dae \<Rightarrow> 'a pyval \<Rightarrow> 'a pyval \<Rightarrow> 'a pyval \<Rightarrow> (exn + 'a pyval) \<times> ('a, 's) dae" where
  "dae_solve self tspan y0 yp0 =
     (case dae_integrator self of
        None \<Rightarrow> (Inl (AttributeError ''_integrator''), self)
      | Some (cl, inst) \<Rightarrow>
          (case cls_solve cl tspan y0 yp0 inst of
             (r, inst') \<Rightarrow> (r, self\<lparr>dae_integrator := Some (cl, inst')\<rparr>)))"

definition dae_init_step ::
  "('a, 's) dae \<Rightarrow> 'a pyval \<Rightarrow> 'a pyval \<Rightarrow> 'a pyval \<Rightarrow> 'a pyval \<Rightarrow> 'a pyval
     \<Rightarrow> (exn + 'a pyval) \<times> ('a, 's) dae" where
  "dae_init_step self t0 y0 yp0 y_ic0_retn yp_ic0_retn =
     (case dae_integrator self of
        None \<Rightarrow> (Inl (AttributeError ''_integrator''), self)
      | Some (cl, inst) \<Rightarrow>
          (case cls_init_step cl t0 y0 yp0 y_ic0_retn yp_ic0_retn inst of
             (r, inst') \<Rightarrow> (r, self\<lparr>dae_integrator := Some (cl, inst')\<rparr>)))"

definition dae_step ::
  "('a, 's) dae \<Rightarrow> 'a pyval \<Rightarrow> 'a pyval \<Rightarrow> 'a pyval \<Rightarrow> (exn + 'a pyval) \<times> ('a, 's) dae" where
  "dae_step self t y_retn yp_retn =
     (case dae_integrator self of
        None \<Rightarrow> (Inl (AttributeError ''_integrator''), self)
      | Some (cl, inst) \<Rightarrow>
          (case cls_step cl t y_retn yp_retn inst of
             (r, inst') \<Rightarrow> (r, self\<lparr>dae_integrator := Some (cl, inst')\<rparr>)))"

text \<open>
  \<^verbatim>\<open>
    def __del__(self):
        del self._integrator
  \<close>
  Deleting an attribute that does not exist raises \<^verbatim>\<open>AttributeError\<close>.
\<close>

definition dae_del :: "('a, 's) dae \<Rightarrow> exn + ('a, 's) dae" where
  "dae_del self =
     (case dae_integrator self of
        None \<Rightarrow> Inl (AttributeError ''_integrator'')
      | Some b \<Rightarrow> Inr (self\<lparr>dae_integrator := None\<rparr>))"

section \<open>The specification's wording, for comparison\<close>

text \<open>
  The matching policy as the specification words it: the requested name equals the
  canonical identifier of the implementation when case is ignored, or the implementation
  exposes an alias identifier (the class attribute \<^verbatim>\<open>name\<close>) that it equals when
  case is ignored.
\<close>

definition spec_matches :: "string \<Rightarrow> ('a, 's) integrator_class \<Rightarrow> bool" where
  "spec_matches name cl =
     (lower name = lower (cls_name cl) \<or>
      (case getattr_cls cl ''name'' of
         Some (StrAttr alias) \<Rightarrow> lower name = lower alias
       | Some ObjAttr \<Rightarrow> False
       | None \<Rightarrow> False))"

text \<open>
  What one probe is expected to leave behind, from its outcome alone: the classes it
  registers and the line it prints.
\<close>

definition registered_ida :: "exn + ('a, 's) integrator_class \<Rightarrow> ('a, 's) integrator_class list" where
  "registered_ida outcome = (case outcome of Inr c \<Rightarrow> [c] | Inl e \<Rightarrow> [])"

definition registered_module ::
  "exn + ('a, 's) integrator_class list \<Rightarrow> ('a, 's) integrator_class list" where
  "registered_module outcome = (case outcome of Inr cs \<Rightarrow> cs | Inl e \<Rightarrow> [])"

definition diagnostic_ida :: "exn + 'c \<Rightarrow> string list" where
  "diagnostic_ida outcome =
     (case outcome of
        Inl (ValueError msg) \<Rightarrow> [''Could not load IDA solver '' @ msg]
      | Inl (ImportError msg) \<Rightarrow> [msg]
      | Inl e \<Rightarrow> []
      | Inr c \<Rightarrow> [])"

definition diagnostic_module :: "exn + 'c \<Rightarrow> string list" where
  "diagnostic_module outcome =
     (case outcome of Inl (ImportError msg) \<Rightarrow> [msg] | Inl e \<Rightarrow> [] | Inr c \<Rightarrow> [])"

text \<open>The outcomes that the handlers of a probe let pass: a successful import, and the
  exception classes named in its \<^verbatim>\<open>except\<close> clauses.\<close>

definition caught_ida :: "exn + 'c \<Rightarrow> bool" where
  "caught_ida outcome =
     (case outcome of
        Inr c \<Rightarrow> True
      | Inl (ValueError msg) \<Rightarrow> True
      | Inl (ImportError msg) \<Rightarrow> True
      | Inl e \<Rightarrow> False)"

definition caught_module :: "exn + 'c \<Rightarrow> bool" where
  "caught_module outcome =
     (case outcome of Inr c \<Rightarrow> True | Inl (ImportError msg) \<Rightarrow> True | Inl e \<Rightarrow> False)"

definition probes_caught :: "('a, 's) pyenv \<Rightarrow> bool" where
  "probes_caught env =
     (caught_ida (import_ida env) \<and> caught_module (import_ddaspk env)
      \<and> caught_module (import_lsodi env))"


section \<open>Backend classes\<close>

text \<open>
  The concrete backend classes live in modules outside \<^verbatim>\<open>dae.py\<close>; the theorems
  below hold for every class. For evaluating the functions on concrete registries: a
  class with a given name and attribute table whose constructor and methods succeed and
  return \<^verbatim>\<open>None\<close>.
\<close>

definition plain_class :: "string \<Rightarrow> (string \<times> pyattr) list \<Rightarrow> (nat, unit) integrator_class" where
  "plain_class nm attrs =
     \<lparr>cls_name = nm,
      cls_attrs = attrs,
      cls_init = (\<lambda>Rfn options. Inr ()),
      cls_set_options = (\<lambda>options self. (Inr PyNone, self)),
      cls_solve = (\<lambda>tspan y0 yp0 self. (Inr PyNone, self)),
      cls_init_step = (\<lambda>t0 y0 yp0 y_ic0_retn yp_ic0_retn self. (Inr PyNone, self)),
      cls_step = (\<lambda>t y_retn yp_retn self. (Inr PyNone, self))\<rparr>"

text \<open>
  A class whose instance state counts the calls made on the instance and whose methods
  hand back their first positional argument (\<^verbatim>\<open>set_options\<close> hands back
  \<^verbatim>\<open>None\<close>, \<^verbatim>\<open>solve\<close> raises).
\<close>

definition echo_class :: "string \<Rightarrow> (nat, nat) integrator_class" where
  "echo_class nm =
     \<lparr>cls_name = nm,
      cls_attrs = subclass_attrs ''backends'' nm DaeBase_body,
      cls_init = (\<lambda>Rfn options. Inr 0),
      cls_set_options = (\<lambda>options self. (Inr PyNone, Suc self)),
      cls_solve = (\<lambda>tspan y0 yp0 self. (Inl (ValueError ''solver failed''), Suc self)),
      cls_init_step = (\<lambda>t0 y0 yp0 y_ic0_retn yp_ic0_retn self. (Inr t0, Suc self)),
      cls_step = (\<lambda>t y_retn yp_retn self. (Inr t, Suc self))\<rparr>"



text \<open>
  Three classes with the names of the backends that the docstring of \<^verbatim>\<open>dae\<close>
  lists (\<^verbatim>\<open>'ida'\<close>, \<^verbatim>\<open>'ddaspk'\<close> or \<^verbatim>\<open>'lsodi'\<close>), a fourth whose name extends
  the first, and three environments: every module loads; the import of the second module
  raises \<^verbatim>\<open>ValueError\<close>; the first two modules fail with exceptions that their
  handlers catch.
\<close>

definition IDA_class :: "(nat, unit) integrator_class" where
  "IDA_class =
     plain_class ''IDA'' (subclass_attrs ''scikits.odes.sundials.ida'' ''IDA'' DaeBase_body)"

definition ddaspk_class :: "(nat, unit) integrator_class" where
  "ddaspk_class = plain_class ''ddaspk''
     (subclass_attrs ''scikits.odes.ddaspkint'' ''ddaspk''
        ((''name'', StrAttr ''ddaspk'') # DaeBase_body))"

definition lsodi_class :: "(nat, unit) integrator_class" where
  "lsodi_class = plain_class ''lsodi''
     (subclass_attrs ''scikits.odes.lsodiint'' ''lsodi''
        ((''name'', StrAttr ''lsodi'') # DaeBase_body))"

definition IDAS_class :: "(nat, unit) integrator_class" where
  "IDAS_class =
     plain_class ''IDAS'' (subclass_attrs ''scikits.odes.sundials.idas'' ''IDAS'' DaeBase_body)"

definition env_all_load :: "(nat, unit) pyenv" where
  "env_all_load =
     \<lparr>import_ida = Inr IDA_class, import_ddaspk = Inr [ddaspk_class],
      import_lsodi = Inr [lsodi_class]\<rparr>"

definition env_ddaspk_raises :: "(nat, unit) pyenv" where
  "env_ddaspk_raises =
     \<lparr>import_ida = Inr IDA_class,
      import_ddaspk = Inl (ValueError ''numpy.dtype size changed''),
      import_lsodi = Inr [lsodi_class]\<rparr>"

definition env_only_lsodi :: "(nat, unit) pyenv" where
  "env_only_lsodi =
     \<lparr>import_ida = Inl (ValueError ''numpy.dtype size changed''),
      import_ddaspk = Inl (ImportError ''No module named ddaspk''),
      import_lsodi = Inr [lsodi_class]\<rparr>"

section \<open>Auxiliary facts\<close>

lemma startswith_I_equal: "lower a = lower b \<Longrightarrow> startswith_I a b"
proof (induction a b rule: startswith_I.induct)
  case (1 s)
  then show ?case by simp
next
  case (2 p ps)
  then show ?case by (simp add: lower_def)
next
  case (3 p ps c cs)
  then show ?case by (simp add: lower_def)
qed

lemma startswith_I_take: "startswith_I p s = (take (length p) (lower s) = lower p)"
  by (induction p s rule: startswith_I.induct) (auto simp: lower_def)

lemma probe_ida_caught:
  "caught_ida outcome \<Longrightarrow>
   probe_ida outcome st =
     (None, st\<lparr>import_log := import_log st @ [''.sundials.ida''],
              integrator_classes := integrator_classes st @ registered_ida outcome,
              stdout := stdout st @ diagnostic_ida outcome\<rparr>)"
  by (auto simp: caught_ida_def probe_ida_def registered_ida_def diagnostic_ida_def Let_def
      split: sum.splits exn.splits)

lemma probe_module_caught:
  "caught_module outcome \<Longrightarrow>
   probe_module modname outcome st =
     (None, st\<lparr>import_log := import_log st @ [modname],
              integrator_classes := integrator_classes st @ registered_module outcome,
              stdout := stdout st @ diagnostic_module outcome\<rparr>)"
  by (auto simp: caught_module_def probe_module_def registered_module_def diagnostic_module_def
      Let_def split: sum.splits exn.splits)

lemma discover_caught:
  assumes "probes_caught env"
  shows "discover env st =
     (None, st\<lparr>import_log := import_log st @
                 [''.sundials.ida'', ''.ddaspkint.ddaspk'', ''.lsodiint.lsodi''],
              integrator_classes := integrator_classes st @ registered_ida (import_ida env)
                 @ registered_module (import_ddaspk env) @ registered_module (import_lsodi env),
              stdout := stdout st @ diagnostic_ida (import_ida env)
                 @ diagnostic_module (import_ddaspk env) @ diagnostic_module (import_lsodi env),
              LOADED := True\<rparr>)"
  using assms
  by (simp add: probes_caught_def discover_def probe_ida_caught probe_module_caught)

lemma find_when_loaded:
  "LOADED st \<Longrightarrow>
   find_dae_integrator rx env name st = (resolve_loop rx name (integrator_classes st), st)"
  by (simp add: find_dae_integrator_def ensure_loaded_def)

lemma find_state: "snd (find_dae_integrator rx env name st) = snd (ensure_loaded env st)"
  by (simp add: find_dae_integrator_def split: prod.splits option.splits)

lemma dae_init_state: "snd (dae_init rx env name eqsres options st) = snd (ensure_loaded env st)"
  by (simp add: dae_init_def find_dae_integrator_def split: prod.splits option.splits sum.splits)

lemma resolve_loop_cases:
  "(\<exists>e. resolve_loop rx name cls = Inl e) \<or>
   (\<exists>cl. resolve_loop rx name cls = Inr (Some cl) \<and> cl \<in> set cls)"
  by (induction cls) (auto split: sum.splits bool.splits)


lemma resolve_loop_first:
  "list_all (\<lambda>c. match_class rx name c = Inr False) pre \<Longrightarrow>
   match_class rx name cl = Inr True \<Longrightarrow>
   resolve_loop rx name (pre @ cl # post) = Inr (Some cl)"
  by (induction pre) auto

lemma match_class_literal_no_attr:
  "literal_pattern name \<Longrightarrow> \<not> hasattr cl name \<Longrightarrow>
   match_class re_match name cl = Inr (startswith_I name (cls_name cl))"
  by (simp add: match_class_def re_match_def split: bool.splits)

lemma match_class_literal_equal:
  "literal_pattern name \<Longrightarrow> lower name = lower (cls_name cl) \<Longrightarrow>
   match_class re_match name cl = Inr True"
  by (simp add: match_class_def re_match_def startswith_I_equal)

text \<open>Facts about the example classes, by evaluation.\<close>

lemma example_class_name:
  "cls_name IDA_class = ''IDA''" "cls_name ddaspk_class = ''ddaspk''"
  "cls_name lsodi_class = ''lsodi''" "cls_name IDAS_class = ''IDAS''"
  by (simp_all add: IDA_class_def ddaspk_class_def lsodi_class_def IDAS_class_def
      plain_class_def)

lemma example_class_init:
  "cls_init IDA_class Rfn options = Inr ()" "cls_init ddaspk_class Rfn options = Inr ()"
  "cls_init lsodi_class Rfn options = Inr ()" "cls_init IDAS_class Rfn options = Inr ()"
  by (simp_all add: IDA_class_def ddaspk_class_def lsodi_class_def IDAS_class_def
      plain_class_def)

lemma example_class_alias:
  "getattr_cls IDA_class ''name'' = None"
  "getattr_cls ddaspk_class ''name'' = Some (StrAttr ''ddaspk'')"
  "getattr_cls lsodi_class ''name'' = Some (StrAttr ''lsodi'')"
  by code_simp+

lemma example_class_no_attr:
  "\<not> hasattr IDA_class ''Ida''"
  "\<not> hasattr IDA_class ''nonexistent''" "\<not> hasattr ddaspk_class ''nonexistent''"
  "\<not> hasattr lsodi_class ''nonexistent''"
  "\<not> hasattr IDA_class ''LSODI''" "\<not> hasattr ddaspk_class ''LSODI''"
  "\<not> hasattr IDA_class ''lsodi''" "\<not> hasattr ddaspk_class ''lsodi''"
  by code_simp+

lemma example_class_distinct: "IDAS_class \<noteq> IDA_class"
  using example_class_name(1,4) by auto

lemmas eval_defs =
  match_class_def re_match_def literal_pattern_def metachar_def lower_def lower_char_def
  spec_matches_def example_class_name example_class_init example_class_alias
  example_class_distinct
  env_all_load_def env_ddaspk_raises_def env_only_lsodi_def initial_state_def
  find_dae_integrator_def ensure_loaded_def discover_def probe_ida_def probe_module_def
  dae_init_def Let_def

section \<open>Name matching\<close>




section \<open>Discovery\<close>

text \<open>
  C2, as stated: the first call of \<^verbatim>\<open>find_dae_integrator\<close> probes the backends and
  sets \<^verbatim>\<open>dae.LOADED\<close>, and every later call skips the probing. The flag is set by the
  last statement of the discovery block; when the import of \<^verbatim>\<open>ddaspk\<close> raises
  \<^verbatim>\<open>ValueError\<close>, which its handler does not catch, the first call leaves the flag
  unset, and the second call runs the imports again and appends \<^verbatim>\<open>IDA\<close> a second
  time.
\<close>

theorem C2_rediscovery_counterexample:
  "fst (find_dae_integrator re_match env_ddaspk_raises ''ida'' initial_state)
     = Inl (ValueError ''numpy.dtype size changed'')
   \<and> \<not> LOADED (snd (find_dae_integrator re_match env_ddaspk_raises ''ida'' initial_state))
   \<and> import_log (snd (find_dae_integrator re_match env_ddaspk_raises ''ida''
        (snd (find_dae_integrator re_match env_ddaspk_raises ''ida'' initial_state))))
     = [''.sundials.ida'', ''.ddaspkint.ddaspk'', ''.sundials.ida'', ''.ddaspkint.ddaspk'']
   \<and> integrator_classes (snd (find_dae_integrator re_match env_ddaspk_raises ''ida''
        (snd (find_dae_integrator re_match env_ddaspk_raises ''ida'' initial_state))))
     = [IDA_class, IDA_class]"
  by (simp add: eval_defs)

text \<open>
  C2, amended: when every probe of the environment loads or fails with an exception that
  its handler catches, a call of \<^verbatim>\<open>find_dae_integrator\<close> leaves
  \<^verbatim>\<open>dae.LOADED\<close> set, having run the three imports if and only if the flag was unset
  before; every later resolution, also the one inside the construction of a facade and
  whatever the modules would do by then, runs no import, prints nothing, and answers from
  the list \<^verbatim>\<open>DaeBase.integrator_classes\<close> alone, leaving the state as it is.
\<close>

theorem C2_discovery_once:
  assumes "probes_caught env" and "find_dae_integrator rx env name st = (r, st1)"
  shows "LOADED st1
     \<and> import_log st1 = import_log st @
          (if LOADED st then [] else [''.sundials.ida'', ''.ddaspkint.ddaspk'', ''.lsodiint.lsodi''])
     \<and> find_dae_integrator rx env' name' st1 = (resolve_loop rx name' (integrator_classes st1), st1)
     \<and> snd (dae_init rx env' name' eqsres options st1) = st1"
proof -
  have st1: "st1 = snd (ensure_loaded env st)"
    using assms(2) find_state [of rx env name st] by simp
  have loaded: "LOADED st1"
    unfolding st1 using assms(1) by (simp add: ensure_loaded_def discover_caught)
  have log: "import_log st1 = import_log st @
          (if LOADED st then [] else [''.sundials.ida'', ''.ddaspkint.ddaspk'', ''.lsodiint.lsodi''])"
    unfolding st1 using assms(1) by (simp add: ensure_loaded_def discover_caught)
  have later: "snd (dae_init rx env' name' eqsres options st1) = st1"
    using loaded by (simp add: dae_init_state ensure_loaded_def)
  show ?thesis using loaded log later find_when_loaded [OF loaded] by simp
qed

theorem C2_discovery_once_witness:
  "probes_caught env_only_lsodi
   \<and> find_dae_integrator re_match env_only_lsodi ''lsodi'' initial_state
       = (Inr (Some lsodi_class),
          \<lparr>LOADED = True, integrator_classes = [lsodi_class],
           stdout = [''Could not load IDA solver numpy.dtype size changed'',
                     ''No module named ddaspk''],
           import_log = [''.sundials.ida'', ''.ddaspkint.ddaspk'', ''.lsodiint.lsodi'']\<rparr>)
   \<and> snd (dae_init re_match env_all_load ''ida'' PyNone []
        \<lparr>LOADED = True, integrator_classes = [lsodi_class],
         stdout = [''Could not load IDA solver numpy.dtype size changed'',
                   ''No module named ddaspk''],
         import_log = [''.sundials.ida'', ''.ddaspkint.ddaspk'', ''.lsodiint.lsodi'']\<rparr>)
     = \<lparr>LOADED = True, integrator_classes = [lsodi_class],
        stdout = [''Could not load IDA solver numpy.dtype size changed'',
                  ''No module named ddaspk''],
        import_log = [''.sundials.ida'', ''.ddaspkint.ddaspk'', ''.lsodiint.lsodi'']\<rparr>"
proof -
  have c: "probes_caught env_only_lsodi"
    by (simp add: probes_caught_def caught_ida_def caught_module_def env_only_lsodi_def)
  have f: "find_dae_integrator re_match env_only_lsodi ''lsodi'' initial_state
       = (Inr (Some lsodi_class),
          \<lparr>LOADED = True, integrator_classes = [lsodi_class],
           stdout = [''Could not load IDA solver numpy.dtype size changed'',
                     ''No module named ddaspk''],
           import_log = [''.sundials.ida'', ''.ddaspkint.ddaspk'', ''.lsodiint.lsodi'']\<rparr>)"
    by (simp add: eval_defs)
  show ?thesis
    using C2_discovery_once [OF c f, of env_all_load "''ida''" PyNone "[]"] c f by simp
qed




section \<open>Construction of a facade\<close>




text \<open>
  C5, as stated: for every requested name that equals the name of a registered backend
  when case is ignored, the construction succeeds and binds the facade to exactly that
  backend. The loop returns the first class that \<^verbatim>\<open>re.match\<close> accepts: with a class
  \<^verbatim>\<open>IDAS\<close> registered before \<^verbatim>\<open>IDA\<close>, the name \<^verbatim>\<open>ida\<close> binds the facade to
  \<^verbatim>\<open>IDAS\<close>.
\<close>

theorem C5_shadowing_counterexample:
  "lower ''ida'' = lower (cls_name IDA_class) \<and> IDAS_class \<noteq> IDA_class
   \<and> dae_init re_match env_all_load ''ida'' PyNone []
        \<lparr>LOADED = True, integrator_classes = [IDAS_class, IDA_class], stdout = [],
         import_log = []\<rparr>
     = (Inr \<lparr>dae_integrator = Some (IDAS_class, ())\<rparr>,
        \<lparr>LOADED = True, integrator_classes = [IDAS_class, IDA_class], stdout = [],
         import_log = []\<rparr>)"
  by (simp add: eval_defs)

text \<open>
  C5, amended: take the registry as the call finds it, after the discovery if the flag
  was unset. Let the requested name be made of literal characters and equal, when case is
  ignored, the \<^verbatim>\<open>__name__\<close> of a class of that registry, and let no class
  registered before it have a \<^verbatim>\<open>__name__\<close> that starts with the requested name
  (case ignored) or an attribute called by the requested name. Then, when the discovery
  run by this call lets an exception escape, the construction raises that exception and
  calls no constructor. Otherwise the construction calls the constructor of exactly that
  class: when the constructor returns, the facade owns the new instance of that class;
  when it raises, the construction raises the same exception. So \<^verbatim>\<open>IDA\<close> and
  \<^verbatim>\<open>ida\<close> bind to the same class.
\<close>

theorem C5_exact_name_binds:
  assumes "literal_pattern name"
    and "integrator_classes (snd (ensure_loaded env st)) = pre @ cl # post"
    and "lower name = lower (cls_name cl)"
    and "list_all (\<lambda>c. \<not> startswith_I name (cls_name c) \<and> \<not> hasattr c name) pre"
  shows "dae_init re_match env name eqsres options st =
           (case fst (ensure_loaded env st) of
              Some e \<Rightarrow> (Inl e, snd (ensure_loaded env st))
            | None \<Rightarrow>
                (case cls_init cl eqsres options of
                   Inl e \<Rightarrow> (Inl e, snd (ensure_loaded env st))
                 | Inr inst \<Rightarrow>
                     (Inr \<lparr>dae_integrator = Some (cl, inst)\<rparr>, snd (ensure_loaded env st))))"
proof -
  obtain d st1 where d: "ensure_loaded env st = (d, st1)"
    by (cases "ensure_loaded env st")
  have "list_all (\<lambda>c. match_class re_match name c = Inr False) pre"
    using assms(1,4) by (induction pre) (simp_all add: match_class_literal_no_attr)
  then have "resolve_loop re_match name (pre @ cl # post) = Inr (Some cl)"
    using assms(1,3) by (simp add: resolve_loop_first match_class_literal_equal)
  then have r: "resolve_loop re_match name (integrator_classes st1) = Inr (Some cl)"
    using assms(2) d by simp
  show ?thesis
  proof (cases d)
    case (Some e)
    then show ?thesis using d by (simp add: dae_init_def find_dae_integrator_def)
  next
    case None
    then show ?thesis
      using d r by (simp add: dae_init_def find_dae_integrator_def split: sum.splits)
  qed
qed

theorem C5_exact_name_binds_witness:
  "literal_pattern ''LSODI''
   \<and> ensure_loaded env_all_load initial_state =
     (None, \<lparr>LOADED = True, integrator_classes = [IDA_class, ddaspk_class, lsodi_class],
             stdout = [],
             import_log = [''.sundials.ida'', ''.ddaspkint.ddaspk'', ''.lsodiint.lsodi'']\<rparr>)
   \<and> lower ''LSODI'' = lower (cls_name lsodi_class)
   \<and> list_all (\<lambda>c. \<not> startswith_I ''LSODI'' (cls_name c) \<and> \<not> hasattr c ''LSODI'')
        [IDA_class, ddaspk_class]
   \<and> dae_init re_match env_all_load ''LSODI'' PyNone [] initial_state =
       (Inr \<lparr>dae_integrator = Some (lsodi_class, ())\<rparr>,
        \<lparr>LOADED = True, integrator_classes = [IDA_class, ddaspk_class, lsodi_class],
         stdout = [],
         import_log = [''.sundials.ida'', ''.ddaspkint.ddaspk'', ''.lsodiint.lsodi'']\<rparr>)
   \<and> dae_init re_match env_all_load ''lsodi'' PyNone [] initial_state =
       dae_init re_match env_all_load ''LSODI'' PyNone [] initial_state"
proof -
  have l: "literal_pattern ''LSODI''" "literal_pattern ''lsodi''"
    by (simp_all add: literal_pattern_def metachar_def)
  have d: "ensure_loaded env_all_load initial_state =
     (None, \<lparr>LOADED = True, integrator_classes = [IDA_class, ddaspk_class, lsodi_class],
             stdout = [],
             import_log = [''.sundials.ida'', ''.ddaspkint.ddaspk'', ''.lsodiint.lsodi'']\<rparr>)"
    by (simp add: ensure_loaded_def discover_def probe_ida_def probe_module_def
        env_all_load_def initial_state_def Let_def)
  have g: "integrator_classes (snd (ensure_loaded env_all_load initial_state))
             = [IDA_class, ddaspk_class] @ lsodi_class # []"
    using d by simp
  have e: "lower ''LSODI'' = lower (cls_name lsodi_class)"
      "lower ''lsodi'' = lower (cls_name lsodi_class)"
    by (simp_all add: lower_def lower_char_def example_class_name)
  have p: "list_all (\<lambda>c. \<not> startswith_I ''LSODI'' (cls_name c) \<and> \<not> hasattr c ''LSODI'')
        [IDA_class, ddaspk_class]"
      "list_all (\<lambda>c. \<not> startswith_I ''lsodi'' (cls_name c) \<and> \<not> hasattr c ''lsodi'')
        [IDA_class, ddaspk_class]"
    by (simp_all add: lower_char_def example_class_name example_class_no_attr)
  have i: "cls_init lsodi_class PyNone [] = Inr ()"
    by (simp add: example_class_init)
  show ?thesis
    using C5_exact_name_binds [OF l(1) g e(1) p(1), of PyNone "[]"]
      C5_exact_name_binds [OF l(2) g e(2) p(2), of PyNone "[]"]
      l(1) d e(1) p(1) i by simp
qed

section \<open>The facade's operations\<close>

text \<open>
  C6: every public operation of the facade (\<^verbatim>\<open>set_options\<close>, \<^verbatim>\<open>solve\<close>,
  \<^verbatim>\<open>init_step\<close>, \<^verbatim>\<open>step\<close>) is a pass-through. On a facade that owns a backend
  instance, the operation calls the operation of the same name of the instance's class on
  that instance with the same arguments, returns its result or its exception unchanged,
  and changes nothing of the facade but the state of that instance.
\<close>

theorem C6_facade_forwards:
  assumes "dae_integrator self = Some (cl, inst)"
  shows "dae_set_options self options =
           (fst (cls_set_options cl options inst),
            self\<lparr>dae_integrator := Some (cl, snd (cls_set_options cl options inst))\<rparr>)
       \<and> dae_solve self tspan y0 yp0 =
           (fst (cls_solve cl tspan y0 yp0 inst),
            self\<lparr>dae_integrator := Some (cl, snd (cls_solve cl tspan y0 yp0 inst))\<rparr>)
       \<and> dae_init_step self t0 y0 yp0 y_ic0_retn yp_ic0_retn =
           (fst (cls_init_step cl t0 y0 yp0 y_ic0_retn yp_ic0_retn inst),
            self\<lparr>dae_integrator :=
                   Some (cl, snd (cls_init_step cl t0 y0 yp0 y_ic0_retn yp_ic0_retn inst))\<rparr>)
       \<and> dae_step self t y_retn yp_retn =
           (fst (cls_step cl t y_retn yp_retn inst),
            self\<lparr>dae_integrator := Some (cl, snd (cls_step cl t y_retn yp_retn inst))\<rparr>)"
  using assms
  by (simp add: dae_set_options_def dae_solve_def dae_init_step_def dae_step_def
      split: prod.splits)

theorem C6_facade_forwards_witness:
  "dae_integrator \<lparr>dae_integrator = Some (echo_class ''IDA'', 0)\<rparr> = Some (echo_class ''IDA'', 0)
   \<and> dae_set_options \<lparr>dae_integrator = Some (echo_class ''IDA'', 0)\<rparr> [(''rtol'', PyVal 1)]
     = (Inr PyNone, \<lparr>dae_integrator = Some (echo_class ''IDA'', 1)\<rparr>)
   \<and> dae_solve \<lparr>dae_integrator = Some (echo_class ''IDA'', 0)\<rparr> (PyVal 2) (PyVal 3) (PyVal 4)
     = (Inl (ValueError ''solver failed''), \<lparr>dae_integrator = Some (echo_class ''IDA'', 1)\<rparr>)
   \<and> dae_init_step \<lparr>dae_integrator = Some (echo_class ''IDA'', 0)\<rparr>
        (PyVal 5) (PyVal 3) (PyVal 4) PyNone PyNone
     = (Inr (PyVal 5), \<lparr>dae_integrator = Some (echo_class ''IDA'', 1)\<rparr>)
   \<and> dae_step \<lparr>dae_integrator = Some (echo_class ''IDA'', 0)\<rparr> (PyVal 8) PyNone PyNone
     = (Inr (PyVal 8), \<lparr>dae_integrator = Some (echo_class ''IDA'', 1)\<rparr>)"
proof -
  have h: "dae_integrator \<lparr>dae_integrator = Some (echo_class ''IDA'', 0)\<rparr>
             = Some (echo_class ''IDA'', 0)"
    by simp
  have m: "cls_set_options (echo_class ''IDA'') [(''rtol'', PyVal 1)] 0 = (Inr PyNone, 1)"
      "cls_solve (echo_class ''IDA'') (PyVal 2) (PyVal 3) (PyVal 4) 0
         = (Inl (ValueError ''solver failed''), 1)"
      "cls_init_step (echo_class ''IDA'') (PyVal 5) (PyVal 3) (PyVal 4) PyNone PyNone 0
         = (Inr (PyVal 5), 1)"
      "cls_step (echo_class ''IDA'') (PyVal 8) PyNone PyNone 0 = (Inr (PyVal 8), 1)"
    by (simp_all add: echo_class_def)
  show ?thesis
    using C6_facade_forwards [OF h, where options = "[(''rtol'', PyVal 1)]"
        and tspan = "PyVal 2" and ?y0.0 = "PyVal 3" and ?yp0.0 = "PyVal 4"
        and ?t0.0 = "PyVal 5"
        and y_ic0_retn = PyNone and yp_ic0_retn = PyNone
        and t = "PyVal 8" and y_retn = PyNone and yp_retn = PyNone] m
    by simp
qed




text \<open>
  C8, as stated: disposal releases the backend instance exactly once, and a second
  disposal of the same facade is a no-op, not an error. \<^verbatim>\<open>__del__\<close> deletes the
  attribute \<^verbatim>\<open>_integrator\<close> without looking whether it exists, so the second run
  raises \<^verbatim>\<open>AttributeError\<close>.
\<close>

theorem C8_second_disposal_counterexample:
  "dae_del \<lparr>dae_integrator = Some (IDA_class, ())\<rparr> = Inr \<lparr>dae_integrator = None\<rparr>
   \<and> dae_del (\<lparr>dae_integrator = None\<rparr> :: (nat, unit) dae) = Inl (AttributeError ''_integrator'')"
  by (simp add: dae_del_def)

text \<open>
  C8, amended: the disposal of a facade that owns a backend instance removes the
  facade's reference to it and raises nothing; a disposal of the facade after that
  raises \<^verbatim>\<open>AttributeError\<close> and releases nothing again.
\<close>

theorem C8_disposal_releases_once:
  assumes "dae_integrator self = Some b"
  shows "dae_del self = Inr (self\<lparr>dae_integrator := None\<rparr>)
       \<and> dae_integrator (self\<lparr>dae_integrator := None\<rparr>) = None
       \<and> dae_del (self\<lparr>dae_integrator := None\<rparr>) = Inl (AttributeError ''_integrator'')"
  using assms by (simp add: dae_del_def)

theorem C8_disposal_releases_once_witness:
  "dae_integrator \<lparr>dae_integrator = Some (lsodi_class, ())\<rparr> = Some (lsodi_class, ())
   \<and> dae_del \<lparr>dae_integrator = Some (lsodi_class, ())\<rparr> = Inr \<lparr>dae_integrator = None\<rparr>
   \<and> dae_del (\<lparr>dae_integrator = None\<rparr> :: (nat, unit) dae) = Inl (AttributeError ''_integrator'')"
  using C8_disposal_releases_once [of "\<lparr>dae_integrator = Some (lsodi_class, ())\<rparr>" "(lsodi_class, ())"]
  by simp

section \<open>The abstract contract\<close>

text \<open>
  C9: every operation of the abstract class (the constructor, \<^verbatim>\<open>set_options\<close>,
  \<^verbatim>\<open>solve\<close>, \<^verbatim>\<open>init_step\<close>, \<^verbatim>\<open>step\<close>) raises \<^verbatim>\<open>NotImplementedError\<close>, for
  every argument and every instance state; none returns a result, and none changes the
  instance.
\<close>

theorem C9_abstract_operations_raise:
  "cls_init DaeBase Rfn options = Inl (NotImplementedError ''all DAE solvers must implement this'')
   \<and> cls_set_options DaeBase options self =
       (Inl (NotImplementedError ''all DAE solvers must implement this''), self)
   \<and> cls_solve DaeBase tspan y0 yp0 self =
       (Inl (NotImplementedError ''all DAE solvers must implement this''), self)
   \<and> cls_init_step DaeBase t0 y0 yp0 y_ic0_retn yp_ic0_retn self =
       (Inl (NotImplementedError ''all DAE solvers must implement this''), self)
   \<and> cls_step DaeBase t y_retn yp_retn self =
       (Inl (NotImplementedError ''all DAE solvers must implement this''), self)"
  by (simp add: DaeBase_def DaeBase_init_def DaeBase_set_options_def DaeBase_solve_def
      DaeBase_init_step_def DaeBase_step_def)

section \<open>The result of the resolution\<close>

text \<open>
  C10: for every requested name, every matcher, every environment and every state,
  \<^verbatim>\<open>find_dae_integrator\<close> either raises or returns a class of the registry; it never
  returns \<^verbatim>\<open>None\<close>. So the branch \<^verbatim>\<open>if integrator is None\<close> of the constructor of
  \<^verbatim>\<open>dae\<close> is never taken: the constructor does the same with any other exception
  \<open>other\<close> put in that branch.
\<close>

theorem C10_resolution_never_None:
  "(case find_dae_integrator rx env name st of
      (Inl e, st1) \<Rightarrow> True
    | (Inr None, st1) \<Rightarrow> False
    | (Inr (Some cl), st1) \<Rightarrow> cl \<in> set (integrator_classes st1))
   \<and> dae_init rx env name eqsres options st =
       (case find_dae_integrator rx env name st of
          (Inl e, st1) \<Rightarrow> (Inl e, st1)
        | (Inr None, st1) \<Rightarrow> (Inl other, st1)
        | (Inr (Some integrator), st1) \<Rightarrow>
            (case cls_init integrator eqsres options of
               Inl e \<Rightarrow> (Inl e, st1)
             | Inr inst \<Rightarrow> (Inr \<lparr>dae_integrator = Some (integrator, inst)\<rparr>, st1)))"
proof -
  obtain d st1 where d: "ensure_loaded env st = (d, st1)"
    by (cases "ensure_loaded env st")
  show ?thesis
  proof (cases d)
    case (Some e)
    then show ?thesis using d by (simp add: find_dae_integrator_def dae_init_def)
  next
    case None
    then show ?thesis
      using d resolve_loop_cases [of rx name "integrator_classes st1"]
      by (auto simp: find_dae_integrator_def dae_init_def)
  qed
qed

end
